theory Spec2Isabelle
  imports Main "HOL-Library.Word" "HOL-Library.AList"
begin

section \<open>The debug commands of watchman (watchman/cmds/debug.cpp)\<close>

text \<open>
  A shallow embedding of the command handlers of \<^verbatim>\<open>watchman/cmds/debug.cpp\<close>. Every
  handler has the C++ shape \<^verbatim>\<open>json_ref cmd(Client* client, const json_ref& args)\<close>: it
  either answers with \<^verbatim>\<open>client->sendErrorResponse(msg); return nullptr;\<close>, or an
  accessor it calls throws, or it returns a response object. The model returns the
  state the handler leaves behind together with a sum: \<open>Inl\<close> an error, \<open>Inr\<close> the
  response object. The state is returned in both cases, since C++ mutates in place and
  an error does not undo what was written before it.
\<close>

subsection \<open>JSON values\<close>

text \<open>
  \<^verbatim>\<open>json_ref\<close>: the JSON value type of the command layer. It is declared outside
  \<^verbatim>\<open>debug.cpp\<close>; the model follows the use the handlers make of it. Its integer
  payload \<^verbatim>\<open>json_int_t\<close> is a signed 64-bit integer, kept here as the 64 bits of the
  word (read with \<open>sint\<close>). An object is an \<^verbatim>\<open>unordered_map\<close>: an association list
  whose order stands for the iteration order of the map. Real numbers are left out: no
  handler of this file builds or inspects one.
\<close>

type_synonym json_int_t = "64 word"

datatype json =
    JNull
  | JBool bool
  | JInteger json_int_t
  | JString string
  | JArray "json list"
  | JObject "(string \<times> json) list"

type_synonym json_object = "(string \<times> json) list"

definition json_true :: json where
  "json_true = JBool True"

definition json_boolean :: "bool \<Rightarrow> json" where
  "json_boolean b = JBool b"

text \<open>
  \<^verbatim>\<open>json_integer\<close> takes a \<^verbatim>\<open>json_int_t\<close>; the unsigned 64-bit counters handed to it
  convert with their bits unchanged.
\<close>

definition json_integer :: "64 word \<Rightarrow> json" where
  "json_integer n = JInteger n"

text \<open>\<^verbatim>\<open>json_array_size\<close> is 0 for a value that is not an array.\<close>

fun json_array_size :: "json \<Rightarrow> nat" where
  "json_array_size (JArray xs) = length xs"
| "json_array_size _ = 0"

text \<open>
  \<^verbatim>\<open>json_array_get(args, i)\<close> and \<^verbatim>\<open>args.at(i)\<close>: \<open>None\<close> where the C++ accessor
  throws (not an array, or the index is out of range).
\<close>

fun json_array_get :: "json \<Rightarrow> nat \<Rightarrow> json option" where
  "json_array_get (JArray xs) i = (if i < length xs then Some (xs ! i) else None)"
| "json_array_get _ i = None"

text \<open>\<^verbatim>\<open>object()\<close>, \<^verbatim>\<open>asInt()\<close>, \<^verbatim>\<open>asBool()\<close> throw on a value of another type.\<close>

fun json_object_of :: "json \<Rightarrow> json_object option" where
  "json_object_of (JObject kvs) = Some kvs"
| "json_object_of _ = None"

fun asInt :: "json \<Rightarrow> json_int_t option" where
  "asInt (JInteger n) = Some n"
| "asInt _ = None"

fun isBool :: "json \<Rightarrow> bool" where
  "isBool (JBool b) = True"
| "isBool _ = False"

fun asBool :: "json \<Rightarrow> bool option" where
  "asBool (JBool b) = Some b"
| "asBool _ = None"

text \<open>
  \<^verbatim>\<open>obj.set(key, value)\<close>: the value under an existing key is replaced, a new key is
  added.
\<close>

definition json_object_set :: "string \<Rightarrow> json \<Rightarrow> json_object \<Rightarrow> json_object" where
  "json_object_set k v obj = AList.update k v obj"

text \<open>\<^verbatim>\<open>obj.set({{k1, v1}, ...})\<close> sets the pairs of the initializer list in order.\<close>

fun json_object_set_all :: "(string \<times> json) list \<Rightarrow> json_object \<Rightarrow> json_object" where
  "json_object_set_all [] obj = obj"
| "json_object_set_all ((k, v) # kvs) obj = json_object_set_all kvs (json_object_set k v obj)"

definition json_object_get :: "json_object \<Rightarrow> string \<Rightarrow> json option" where
  "json_object_get obj k = map_of obj k"

subsection \<open>Errors\<close>

text \<open>
  \<open>ErrorResponse msg\<close> is \<^verbatim>\<open>client->sendErrorResponse(msg); return nullptr;\<close>.
  \<open>UnknownRoot\<close> is root resolution failing. \<open>RootPoisoned\<close> is the core refusing a
  mutating operation. \<open>JsonException\<close> is an accessor of \<^verbatim>\<open>json_ref\<close> throwing.
  \<open>NullDereference\<close> is the dereference of an iterator that \<^verbatim>\<open>find\<close> returned as
  \<^verbatim>\<open>end()\<close>.
\<close>

datatype cmd_error =
    ErrorResponse string
  | UnknownRoot
  | RootPoisoned
  | JsonException
  | NullDereference

type_synonym cmd_result = "cmd_error + json_object"

text \<open>
  \<^verbatim>\<open>s.c_str()\<close> handed to a parameter of type \<^verbatim>\<open>const char*\<close>: the callee reads the
  bytes up to the first NUL.
\<close>

definition c_str :: "string \<Rightarrow> string" where
  "c_str s = takeWhile (\<lambda>c. c \<noteq> CHR 0x00) s"

definition quoted :: "string \<Rightarrow> string" where
  "quoted s = CHR 0x27 # s @ [CHR 0x27]"

definition wrong_number_of_arguments :: "string \<Rightarrow> string" where
  "wrong_number_of_arguments cmd = ''wrong number of arguments for '' @ quoted cmd"

subsection \<open>Roots, views, caches\<close>

text \<open>
  \<^verbatim>\<open>CacheStats\<close> (declared in watchman/LRUCache.h, which is not part of the sources):
  the nine counters that \<^verbatim>\<open>addCacheStats\<close> reads, 64-bit each as the spec has them.
  The field \<^verbatim>\<open>size\<close> is named \<open>size_stat\<close> here.
\<close>

record CacheStats =
  cacheHit :: "64 word"
  cacheShare :: "64 word"
  cacheMiss :: "64 word"
  cacheEvict :: "64 word"
  cacheStore :: "64 word"
  cacheLoad :: "64 word"
  cacheErase :: "64 word"
  clearCount :: "64 word"
  size_stat :: "64 word"

text \<open>Of a cache the handlers read \<^verbatim>\<open>stats()\<close> only.\<close>

record LRUCache =
  stats :: CacheStats

text \<open>\<^verbatim>\<open>view->debugAccessCaches()\<close>: the two derived caches of an in-memory view.\<close>

record Caches =
  contentHashCache :: LRUCache
  symlinkTargetCache :: LRUCache

text \<open>
  \<^verbatim>\<open>root->view()\<close> is a pointer to a \<^verbatim>\<open>QueryableView\<close>; its dynamic type is
  \<^verbatim>\<open>InMemoryView\<close> or another implementation.
\<close>

datatype QueryableView =
    InMemoryView Caches
  | OtherView

text \<open>
  \<^verbatim>\<open>std::dynamic_pointer_cast<InMemoryView>(root->view())\<close>: null (\<open>None\<close>) unless the
  view is an in-memory view.
\<close>

fun dynamic_pointer_cast_InMemoryView :: "QueryableView \<Rightarrow> Caches option" where
  "dynamic_pointer_cast_InMemoryView (InMemoryView caches) = Some caches"
| "dynamic_pointer_cast_InMemoryView OtherView = None"

text \<open>
  Modelled from the spec: the type of a tick is not part of the sources. The spec:
  "Tick -- unsigned 64-bit monotonically increasing counter".
\<close>

type_synonym ClockTicks = "64 word"

text \<open>
  A trigger the core behind a root has accepted, with its argument (see
  \<open>scheduleRecrawl\<close> and \<open>performAgeOut\<close> below). \<open>PerformAgeOut n\<close> carries
  \<^verbatim>\<open>std::chrono::seconds(n)\<close>.
\<close>

datatype core_call =
    ScheduleRecrawl string
  | PerformAgeOut json_int_t

text \<open>
  \<^verbatim>\<open>Root\<close>: the fields the handlers touch. \<open>cursors\<close> is \<^verbatim>\<open>root->inner.cursors\<close>, the
  \<^verbatim>\<open>unordered_map\<close> from a cursor's name to its tick, in iteration order.
  \<open>core_calls\<close> are the triggers the core has accepted, in call order.
\<close>

record Root =
  root_path :: string
  cursors :: "(string \<times> ClockTicks) list"
  view :: QueryableView
  core_calls :: "core_call list"

subsection \<open>The daemon: live roots and the poison record\<close>

datatype error_category = generic_category | system_category

type_synonym error_code = "int \<times> error_category"

text \<open>\<^verbatim>\<open>ENOMEM\<close> of \<^verbatim>\<open><cerrno>\<close> (12 on Linux).\<close>

definition ENOMEM :: int where
  "ENOMEM = 12"

record PoisonState =
  poison_path :: string
  poison_timestamp :: nat
  poison_reason :: string
  poison_error :: error_code

type_synonym root_ptr = nat

text \<open>
  The live \<^verbatim>\<open>Root\<close> objects by address, and the process-wide poison record.
\<close>

record Daemon =
  roots :: "(root_ptr \<times> Root) list"
  poison :: "PoisonState option"

text \<open>
  Modelled from the spec: \<^verbatim>\<open>resolveRoot(client, args)\<close> is not part of the sources.
  The spec: "Root resolution: given an identifier, return a handle to the root's Tree
  Model/registries or fail with UnknownRoot". The identifier is the string that follows
  the command name in the argument array, and names the root by its path.
\<close>

definition resolveRoot :: "Daemon \<Rightarrow> json \<Rightarrow> cmd_error + (root_ptr \<times> Root)" where
  "resolveRoot d args =
     (case json_array_get args 1 of
        Some (JString ident) \<Rightarrow>
          (case find (\<lambda>pr. root_path (snd pr) = ident) (roots d) of
             Some pr \<Rightarrow> Inr pr
           | None \<Rightarrow> Inl UnknownRoot)
      | _ \<Rightarrow> Inl UnknownRoot)"

text \<open>A method call through the handle writes the root at its address.\<close>

definition store_root :: "root_ptr \<Rightarrow> Root \<Rightarrow> Daemon \<Rightarrow> Daemon" where
  "store_root p r d = d\<lparr>roots := AList.update p r (roots d)\<rparr>"

text \<open>
  Modelled from the spec: \<^verbatim>\<open>set_poison_state\<close> and the global \<^verbatim>\<open>poisoned_reason\<close>
  (watchman/Poison.h) are not part of the sources. The spec: "PoisonState --
  process-wide (per-daemon) optional record: {root path, timestamp, reason string, error
  code}. Once set it is sticky [...] setting while already set overwrites (last write
  wins) but does not un-poison." \<open>poisoned_reason\<close> is the reason string of the record
  in effect, and empty while there is none.
\<close>

definition set_poison_state :: "string \<Rightarrow> nat \<Rightarrow> string \<Rightarrow> error_code \<Rightarrow> Daemon \<Rightarrow> Daemon" where
  "set_poison_state dir now why err d =
     d\<lparr>poison := Some \<lparr>poison_path = dir, poison_timestamp = now,
                        poison_reason = why, poison_error = err\<rparr>\<rparr>"

definition poisoned_reason :: "Daemon \<Rightarrow> string" where
  "poisoned_reason d = (case poison d of None \<Rightarrow> [] | Some p \<Rightarrow> poison_reason p)"

text \<open>
  Modelled from the spec: \<^verbatim>\<open>Root::scheduleRecrawl\<close> and \<^verbatim>\<open>Root::performAgeOut\<close> are
  not part of the sources. The spec names them as the administrative triggers of the
  core, "scheduleRecrawl(reason: string)" and "performAgeOut(min_age: duration)", and
  counts recrawl and ageout among the mutations of the tree. On poison the spec says:
  "PoisonState is process-wide and must be visible to every thread immediately after
  being set (acts as a circuit breaker checked at the start of every mutating
  operation)" and "Once poison is called for a root, every subsequent mutating call on
  that root fails with RootPoisoned". The poison record is the one process-wide record,
  which a later poison call overwrites with another root's path without un-poisoning
  the first root; so the check at the start of a trigger is whether a record is set.
  What the core does on a trigger it accepts is outside the command layer: the root
  keeps the trigger with its argument.
\<close>

definition scheduleRecrawl :: "Daemon \<Rightarrow> string \<Rightarrow> Root \<Rightarrow> cmd_error + Root" where
  "scheduleRecrawl d why r =
     (if poison d \<noteq> None then Inl RootPoisoned
      else Inr (r\<lparr>core_calls := core_calls r @ [ScheduleRecrawl why]\<rparr>))"

definition performAgeOut :: "Daemon \<Rightarrow> json_int_t \<Rightarrow> Root \<Rightarrow> cmd_error + Root" where
  "performAgeOut d min_age r =
     (if poison d \<noteq> None then Inl RootPoisoned
      else Inr (r\<lparr>core_calls := core_calls r @ [PerformAgeOut min_age]\<rparr>))"

subsection \<open>Clients and subscriptions\<close>

text \<open>
  \<^verbatim>\<open>ClientSubscription\<close>: the fields the handlers touch. \<open>root\<close> is the address of the
  owning root (the handlers compare it as a pointer); \<open>lastResponses\<close> is the ring of
  recent responses, each with the time it was written.
\<close>

record ClientSubscription =
  root :: root_ptr
  debug_paused :: bool
  lastResponses :: "(nat \<times> json) list"

text \<open>
  \<^verbatim>\<open>UserClient\<close>: the fields the handlers touch. \<open>subscriptions\<close> is the
  \<^verbatim>\<open>unordered_map\<close> from a subscription's name to a pointer to the subscription.
  Modelled from the spec: the declaration is not part of the sources; the spec gives a
  subscription a "name (unique per consumer connection)", so each name owns its
  subscription and the map holds the subscriptions themselves.
\<close>

record Client =
  unique_id :: "64 word"
  client_is_owner :: bool
  subscriptions :: "(string \<times> ClientSubscription) list"

subsection \<open>debug-recrawl\<close>

text \<open>
  Every handler takes \<open>make_response\<close>, the fresh response object that
  \<^verbatim>\<open>make_response()\<close> returns (it is built outside this file).
\<close>

definition cmd_debug_recrawl :: "json_object \<Rightarrow> Daemon \<Rightarrow> json \<Rightarrow> Daemon \<times> cmd_result" where
  "cmd_debug_recrawl make_response d args =
     (if json_array_size args \<noteq> 2
      then (d, Inl (ErrorResponse (wrong_number_of_arguments ''debug-recrawl'')))
      else case resolveRoot d args of
        Inl e \<Rightarrow> (d, Inl e)
      | Inr (p, r) \<Rightarrow>
          let resp = make_response in
          (case scheduleRecrawl d ''debug-recrawl'' r of
             Inl e \<Rightarrow> (d, Inl e)
           | Inr r' \<Rightarrow> (store_root p r' d, Inr (json_object_set ''recrawl'' json_true resp))))"

subsection \<open>debug-show-cursors\<close>

text \<open>
  The loop over the cursor map. Each entry is set under \<^verbatim>\<open>name.c_str()\<close>, the name up
  to its first NUL byte.
\<close>

fun show_cursors_loop :: "(string \<times> ClockTicks) list \<Rightarrow> json_object \<Rightarrow> json_object" where
  "show_cursors_loop [] cursors_obj = cursors_obj"
| "show_cursors_loop ((name, ticks) # rest) cursors_obj =
     show_cursors_loop rest (json_object_set (c_str name) (json_integer ticks) cursors_obj)"

definition cmd_debug_show_cursors :: "json_object \<Rightarrow> Daemon \<Rightarrow> json \<Rightarrow> Daemon \<times> cmd_result" where
  "cmd_debug_show_cursors make_response d args =
     (if json_array_size args \<noteq> 2
      then (d, Inl (ErrorResponse (wrong_number_of_arguments ''debug-show-cursors'')))
      else case resolveRoot d args of
        Inl e \<Rightarrow> (d, Inl e)
      | Inr (p, r) \<Rightarrow>
          let resp = make_response;
              cursors_obj = show_cursors_loop (cursors r) []
          in (d, Inr (json_object_set ''cursors'' (JObject cursors_obj) resp)))"

subsection \<open>debug-ageout\<close>

definition cmd_debug_ageout :: "json_object \<Rightarrow> Daemon \<Rightarrow> json \<Rightarrow> Daemon \<times> cmd_result" where
  "cmd_debug_ageout make_response d args =
     (if json_array_size args \<noteq> 3
      then (d, Inl (ErrorResponse (wrong_number_of_arguments ''debug-ageout'')))
      else case resolveRoot d args of
        Inl e \<Rightarrow> (d, Inl e)
      | Inr (p, r) \<Rightarrow>
          (case json_array_get args 2 of
             None \<Rightarrow> (d, Inl JsonException)
           | Some a \<Rightarrow>
               (case asInt a of
                  None \<Rightarrow> (d, Inl JsonException)
                | Some min_age \<Rightarrow>
                    let resp = make_response in
                    (case performAgeOut d min_age r of
                       Inl e \<Rightarrow> (d, Inl e)
                     | Inr r' \<Rightarrow>
                         (store_root p r' d,
                          Inr (json_object_set ''ageout'' json_true resp))))))"

subsection \<open>debug-poison\<close>

text \<open>
  \<open>now\<close> is what \<^verbatim>\<open>std::chrono::system_clock::now()\<close> returns at the call. The
  response takes the reason through \<^verbatim>\<open>c_str()\<close>.
\<close>

definition cmd_debug_poison :: "json_object \<Rightarrow> nat \<Rightarrow> Daemon \<Rightarrow> json \<Rightarrow> Daemon \<times> cmd_result" where
  "cmd_debug_poison make_response now d args =
     (case resolveRoot d args of
        Inl e \<Rightarrow> (d, Inl e)
      | Inr (p, r) \<Rightarrow>
          let d' = set_poison_state (root_path r) now ''debug-poison'' (ENOMEM, generic_category) d;
              resp = make_response
          in (d', Inr (json_object_set ''poison'' (JString (c_str (poisoned_reason d'))) resp)))"

subsection \<open>debug-drop-privs\<close>

definition cmd_debug_drop_privs :: "json_object \<Rightarrow> Client \<Rightarrow> json \<Rightarrow> Client \<times> cmd_result" where
  "cmd_debug_drop_privs make_response client args =
     (let client' = client\<lparr>client_is_owner := False\<rparr>;
          resp = make_response
      in (client', Inr (json_object_set ''owner'' (json_boolean (client_is_owner client')) resp)))"

subsection \<open>debug-set-subscriptions-paused\<close>

text \<open>
  The first loop: every name must be a subscription of the client and every value a
  boolean. It stops at the first entry that is not, with the message of the error
  response.
\<close>

fun check_paused_map :: "(string \<times> ClientSubscription) list \<Rightarrow> (string \<times> json) list \<Rightarrow> string option" where
  "check_paused_map subs [] = None"
| "check_paused_map subs ((name, v) # rest) =
     (case map_of subs name of
        None \<Rightarrow> Some (''this client does not have a subscription named '' @ quoted name)
      | Some sub \<Rightarrow>
          if \<not> isBool v
          then Some (''new value for subscription '' @ quoted name @ '' not a boolean'')
          else check_paused_map subs rest)"

text \<open>
  The second loop: it writes each subscription's flag in place and sets the entry of
  \<open>states\<close>. It returns the subscriptions as written so far also when it fails.
\<close>

fun set_paused_loop ::
  "(string \<times> ClientSubscription) list \<Rightarrow> json_object \<Rightarrow> (string \<times> json) list \<Rightarrow>
   (string \<times> ClientSubscription) list \<times> (cmd_error + json_object)" where
  "set_paused_loop subs states [] = (subs, Inr states)"
| "set_paused_loop subs states ((name, v) # rest) =
     (case map_of subs name of
        None \<Rightarrow> (subs, Inl NullDereference)
      | Some sub \<Rightarrow>
          let old_paused = debug_paused sub in
          (case asBool v of
             None \<Rightarrow> (subs, Inl JsonException)
           | Some new_paused \<Rightarrow>
               set_paused_loop
                 (AList.update name (sub\<lparr>debug_paused := new_paused\<rparr>) subs)
                 (json_object_set name
                    (JObject [(''old'', json_boolean old_paused), (''new'', v)]) states)
                 rest))"

definition cmd_debug_set_subscriptions_paused ::
  "json_object \<Rightarrow> Client \<Rightarrow> json \<Rightarrow> Client \<times> cmd_result" where
  "cmd_debug_set_subscriptions_paused make_response client args =
     (case json_array_get args 1 of
        None \<Rightarrow> (client, Inl JsonException)
      | Some paused \<Rightarrow>
          (case json_object_of paused of
             None \<Rightarrow> (client, Inl JsonException)
           | Some paused_map \<Rightarrow>
               (case check_paused_map (subscriptions client) paused_map of
                  Some msg \<Rightarrow> (client, Inl (ErrorResponse msg))
                | None \<Rightarrow>
                    (case set_paused_loop (subscriptions client) [] paused_map of
                       (subs', Inl e) \<Rightarrow> (client\<lparr>subscriptions := subs'\<rparr>, Inl e)
                     | (subs', Inr states) \<Rightarrow>
                         let resp = make_response
                         in (client\<lparr>subscriptions := subs'\<rparr>,
                             Inr (json_object_set ''paused'' (JObject states) resp))))))"

subsection \<open>debug-get-subscriptions: getDebugSubscriptionInfo\<close>

text \<open>
  \<open>timeString\<close> is \<^verbatim>\<open>Log::timeString\<close>, which formats a time; it is passed in. The
  three loops push to the back of their vectors.
\<close>

fun last_responses_loop :: "(nat \<Rightarrow> string) \<Rightarrow> (nat \<times> json) list \<Rightarrow> json list \<Rightarrow> json list" where
  "last_responses_loop timeString [] last_responses = last_responses"
| "last_responses_loop timeString ((written, response) # rest) last_responses =
     last_responses_loop timeString rest
       (last_responses @
          [JObject [(''written_time'', JString (timeString written)),
                    (''response'', response)]])"

fun client_subscriptions_loop ::
  "(nat \<Rightarrow> string) \<Rightarrow> root_ptr \<Rightarrow> 64 word \<Rightarrow> (string \<times> ClientSubscription) list \<Rightarrow>
   json list \<Rightarrow> json list" where
  "client_subscriptions_loop timeString r client_id [] subs_out = subs_out"
| "client_subscriptions_loop timeString r client_id ((name, sub) # rest) subs_out =
     client_subscriptions_loop timeString r client_id rest
       (if r = root sub
        then subs_out @
          [JObject [(''name'', JString name),
                    (''client_id'', json_integer client_id),
                    (''last_responses'',
                       JArray (last_responses_loop timeString (lastResponses sub) []))]]
        else subs_out)"

fun all_clients_loop ::
  "(nat \<Rightarrow> string) \<Rightarrow> root_ptr \<Rightarrow> Client list \<Rightarrow> json list \<Rightarrow> json list" where
  "all_clients_loop timeString r [] subs_out = subs_out"
| "all_clients_loop timeString r (user_client # rest) subs_out =
     all_clients_loop timeString r rest
       (client_subscriptions_loop timeString r (unique_id user_client)
          (subscriptions user_client) subs_out)"

text \<open>\<open>all_clients\<close> is what \<^verbatim>\<open>UserClient::getAllClients()\<close> returns.\<close>

definition getDebugSubscriptionInfo :: "(nat \<Rightarrow> string) \<Rightarrow> Client list \<Rightarrow> root_ptr \<Rightarrow> json" where
  "getDebugSubscriptionInfo timeString all_clients r =
     JArray (all_clients_loop timeString r all_clients [])"

subsection \<open>debug-contenthash and debug-symlink-target-cache\<close>

definition addCacheStats :: "json_object \<Rightarrow> CacheStats \<Rightarrow> json_object" where
  "addCacheStats resp st =
     json_object_set_all
       [(''cacheHit'', json_integer (cacheHit st)),
        (''cacheShare'', json_integer (cacheShare st)),
        (''cacheMiss'', json_integer (cacheMiss st)),
        (''cacheEvict'', json_integer (cacheEvict st)),
        (''cacheStore'', json_integer (cacheStore st)),
        (''cacheLoad'', json_integer (cacheLoad st)),
        (''cacheErase'', json_integer (cacheErase st)),
        (''clearCount'', json_integer (clearCount st)),
        (''size'', json_integer (size_stat st))]
       resp"

definition debugContentHashCache :: "json_object \<Rightarrow> Daemon \<Rightarrow> json \<Rightarrow> Daemon \<times> cmd_result" where
  "debugContentHashCache make_response d args =
     (if json_array_size args \<noteq> 2
      then (d, Inl (ErrorResponse (wrong_number_of_arguments ''debug-contenthash'')))
      else case resolveRoot d args of
        Inl e \<Rightarrow> (d, Inl e)
      | Inr (p, r) \<Rightarrow>
          (case dynamic_pointer_cast_InMemoryView (view r) of
             None \<Rightarrow> (d, Inl (ErrorResponse ''root is not an InMemoryView watcher''))
           | Some v \<Rightarrow>
               let st = stats (contentHashCache v);
                   resp = make_response
               in (d, Inr (addCacheStats resp st))))"

definition debugSymlinkTargetCache :: "json_object \<Rightarrow> Daemon \<Rightarrow> json \<Rightarrow> Daemon \<times> cmd_result" where
  "debugSymlinkTargetCache make_response d args =
     (if json_array_size args \<noteq> 2
      then (d, Inl (ErrorResponse (wrong_number_of_arguments ''debug-symlink-target-cache'')))
      else case resolveRoot d args of
        Inl e \<Rightarrow> (d, Inl e)
      | Inr (p, r) \<Rightarrow>
          (case dynamic_pointer_cast_InMemoryView (view r) of
             None \<Rightarrow> (d, Inl (ErrorResponse ''root is not an InMemoryView watcher''))
           | Some v \<Rightarrow>
               let st = stats (symlinkTargetCache v);
                   resp = make_response
               in (d, Inr (addCacheStats resp st))))"

subsection \<open>Sample states\<close>

text \<open>
  A daemon with two roots, \<^verbatim>\<open>/repo\<close> on an in-memory view and \<^verbatim>\<open>/mnt/eden\<close> on
  another view, and a client with two subscriptions. The theorems below are evaluated
  on them.
\<close>

definition sample_hash_stats :: CacheStats where
  "sample_hash_stats =
     \<lparr>cacheHit = 5, cacheShare = 1, cacheMiss = 2, cacheEvict = 0, cacheStore = 2,
      cacheLoad = 7, cacheErase = 0, clearCount = 0, size_stat = 2\<rparr>"

definition sample_link_stats :: CacheStats where
  "sample_link_stats =
     \<lparr>cacheHit = 11, cacheShare = 0, cacheMiss = 4, cacheEvict = 1, cacheStore = 4,
      cacheLoad = 15, cacheErase = 0, clearCount = 1, size_stat = 3\<rparr>"

definition sample_root :: Root where
  "sample_root =
     \<lparr>root_path = ''/repo'',
      cursors = [(''n:build'', 3), (''n:sync'', 7)],
      view = InMemoryView \<lparr>contentHashCache = \<lparr>stats = sample_hash_stats\<rparr>,
                            symlinkTargetCache = \<lparr>stats = sample_link_stats\<rparr>\<rparr>,
      core_calls = []\<rparr>"

definition sample_other_root :: Root where
  "sample_other_root =
     \<lparr>root_path = ''/mnt/eden'', cursors = [], view = OtherView, core_calls = []\<rparr>"

definition sample_daemon :: Daemon where
  "sample_daemon = \<lparr>roots = [(1, sample_root), (2, sample_other_root)], poison = None\<rparr>"

definition sample_client :: Client where
  "sample_client =
     \<lparr>unique_id = 42, client_is_owner = True,
      subscriptions =
        [(''sub-a'', \<lparr>root = 1, debug_paused = False,
                       lastResponses = [(1000, JObject [(''clock'', JString ''c:1'')])]\<rparr>),
         (''sub-b'', \<lparr>root = 2, debug_paused = True, lastResponses = []\<rparr>)]\<rparr>"

text \<open>
  The sample daemon after debug-poison on \<^verbatim>\<open>/repo\<close> at time 100.
\<close>

definition sample_poisoned_daemon :: Daemon where
  "sample_poisoned_daemon =
     sample_daemon\<lparr>poison := Some \<lparr>poison_path = ''/repo'', poison_timestamp = 100,
        poison_reason = ''debug-poison'', poison_error = (ENOMEM, generic_category)\<rparr>\<rparr>"

text \<open>
  A root with two cursors whose names differ only after a NUL byte, and a daemon that
  watches it.
\<close>

definition sample_nul_root :: Root where
  "sample_nul_root =
     \<lparr>root_path = ''/nul'',
      cursors = [(''n:a'' @ [CHR 0x00] @ ''x'', 3), (''n:a'' @ [CHR 0x00] @ ''y'', 7)],
      view = OtherView, core_calls = []\<rparr>"

definition sample_nul_daemon :: Daemon where
  "sample_nul_daemon = \<lparr>roots = [(3, sample_nul_root)], poison = None\<rparr>"

text \<open>A second client, with one subscription on the root at address 1.\<close>

definition sample_second_client :: Client where
  "sample_second_client =
     \<lparr>unique_id = 43, client_is_owner = False,
      subscriptions =
        [(''sub-c'', \<lparr>root = 1, debug_paused = False, lastResponses = []\<rparr>)]\<rparr>"

text \<open>A stand-in for \<^verbatim>\<open>Log::timeString\<close>.\<close>

definition sample_timeString :: "nat \<Rightarrow> string" where
  "sample_timeString t = (if t = 1000 then ''00:16:40'' else ''00:00:00'')"

section \<open>Properties\<close>

subsection \<open>Association lists and JSON objects\<close>

lemma update_fresh: "k \<notin> fst ` set al \<Longrightarrow> AList.update k v al = al @ [(k, v)]"
  by (induction al) auto

lemma json_object_get_set:
  "json_object_get (json_object_set k v obj) k' = (if k' = k then Some v else json_object_get obj k')"
  by (simp add: json_object_get_def json_object_set_def update_conv')

lemma map_of_json_object_set_all:
  "map_of (json_object_set_all kvs obj) = map_of obj ++ map_of (rev kvs)"
  by (induction kvs arbitrary: obj) (auto simp: json_object_set_def update_conv')

lemma keys_json_object_set_all:
  "fst ` set (json_object_set_all kvs obj) = fst ` set obj \<union> fst ` set kvs"
proof -
  have "fst ` set (json_object_set_all kvs obj) = dom (map_of (json_object_set_all kvs obj))"
    by (simp add: dom_map_of_conv_image_fst)
  also have "\<dots> = dom (map_of obj) \<union> dom (map_of (rev kvs))"
    by (simp only: map_of_json_object_set_all dom_map_add Un_commute)
  also have "\<dots> = fst ` set obj \<union> fst ` set kvs"
    by (simp add: dom_map_of_conv_image_fst)
  finally show ?thesis .
qed

lemma store_root_same: "map_of (roots (store_root p r d)) p = Some r"
  by (simp add: store_root_def update_conv')

lemma store_root_other: "q \<noteq> p \<Longrightarrow> map_of (roots (store_root p r d)) q = map_of (roots d) q"
  by (simp add: store_root_def update_conv')

lemma store_root_poison: "poison (store_root p r d) = poison d"
  by (simp add: store_root_def)

lemma resolveRoot_poison_update: "resolveRoot (d\<lparr>poison := x\<rparr>) args = resolveRoot d args"
  by (simp add: resolveRoot_def split: option.split json.split)

lemma resolveRoot_sample_repo:
  "resolveRoot sample_daemon (JArray (c # JString ''/repo'' # rest)) = Inr (1, sample_root)"
  by (simp add: resolveRoot_def sample_daemon_def sample_root_def)

lemma resolveRoot_sample_eden:
  "resolveRoot sample_daemon (JArray (c # JString ''/mnt/eden'' # rest)) =
     Inr (2, sample_other_root)"
  by (simp add: resolveRoot_def sample_daemon_def sample_root_def sample_other_root_def)

lemma resolveRoot_sample_nowhere:
  "resolveRoot sample_daemon (JArray (c # JString ''/nowhere'' # rest)) = Inl UnknownRoot"
  by (simp add: resolveRoot_def sample_daemon_def sample_root_def sample_other_root_def)

subsection \<open>debug-drop-privs\<close>

text \<open>
  C10. Every call to debug-drop-privs leaves the client with its owner flag false,
  whatever the flag was, and nothing else changed; the response carries
  \<open>owner = false\<close>; and a second call, on the client the first one left, gives the same
  client and the same response as the first.
\<close>

theorem debug_drop_privs_idempotent:
  "fst (cmd_debug_drop_privs mk c args) = c\<lparr>client_is_owner := False\<rparr>
   \<and> (\<exists>resp. snd (cmd_debug_drop_privs mk c args) = Inr resp
        \<and> json_object_get resp ''owner'' = Some (JBool False))
   \<and> cmd_debug_drop_privs mk (fst (cmd_debug_drop_privs mk c args)) args' =
       cmd_debug_drop_privs mk c args"
  by (simp add: cmd_debug_drop_privs_def json_object_get_set json_boolean_def)

subsection \<open>Argument counts\<close>

text \<open>
  C8. A call to debug-recrawl, debug-show-cursors, debug-contenthash or
  debug-symlink-target-cache whose argument array does not have exactly 2 elements, and
  a call to debug-ageout whose argument array does not have exactly 3, answers with the
  error response "wrong number of arguments for '<command>'" and hands back the daemon
  it was given: no root is resolved, no recrawl is scheduled, no ageout is performed,
  and the answer does not depend on the daemon's state.
\<close>

theorem wrong_argument_count_rejected:
  "(json_array_size args \<noteq> 2 \<longrightarrow>
      cmd_debug_recrawl mk d args =
        (d, Inl (ErrorResponse (wrong_number_of_arguments ''debug-recrawl''))) \<and>
      cmd_debug_show_cursors mk d args =
        (d, Inl (ErrorResponse (wrong_number_of_arguments ''debug-show-cursors''))) \<and>
      debugContentHashCache mk d args =
        (d, Inl (ErrorResponse (wrong_number_of_arguments ''debug-contenthash''))) \<and>
      debugSymlinkTargetCache mk d args =
        (d, Inl (ErrorResponse (wrong_number_of_arguments ''debug-symlink-target-cache'')))) \<and>
   (json_array_size args \<noteq> 3 \<longrightarrow>
      cmd_debug_ageout mk d args =
        (d, Inl (ErrorResponse (wrong_number_of_arguments ''debug-ageout''))))"
  by (simp add: cmd_debug_recrawl_def cmd_debug_show_cursors_def debugContentHashCache_def
      debugSymlinkTargetCache_def cmd_debug_ageout_def)

text \<open>
  On the sample daemon: debug-recrawl with a third argument, and debug-ageout without
  its minimum age; the root \<^verbatim>\<open>/repo\<close> they name exists and records no call.
\<close>

theorem wrong_argument_count_rejected_witness:
  "json_array_size (JArray [JString ''debug-recrawl'', JString ''/repo'', JInteger 5]) \<noteq> 2 \<and>
   cmd_debug_recrawl [] sample_daemon
       (JArray [JString ''debug-recrawl'', JString ''/repo'', JInteger 5]) =
     (sample_daemon, Inl (ErrorResponse (wrong_number_of_arguments ''debug-recrawl''))) \<and>
   json_array_size (JArray [JString ''debug-ageout'', JString ''/repo'']) \<noteq> 3 \<and>
   cmd_debug_ageout [] sample_daemon (JArray [JString ''debug-ageout'', JString ''/repo'']) =
     (sample_daemon, Inl (ErrorResponse (wrong_number_of_arguments ''debug-ageout''))) \<and>
   map_of (roots sample_daemon) 1 = Some sample_root \<and> core_calls sample_root = []"
  using
    wrong_argument_count_rejected
      [of "JArray [JString ''debug-recrawl'', JString ''/repo'', JInteger 5]" "[]" sample_daemon]
    wrong_argument_count_rejected
      [of "JArray [JString ''debug-ageout'', JString ''/repo'']" "[]" sample_daemon]
  by (simp add: sample_daemon_def sample_root_def)

subsection \<open>debug-recrawl and debug-ageout\<close>

lemma sample_daemon_not_poisoned: "poison sample_daemon = None"
  by (simp add: sample_daemon_def)

lemma resolveRoot_sample_poisoned_repo:
  "resolveRoot sample_poisoned_daemon (JArray (c # JString ''/repo'' # rest)) =
     Inr (1, sample_root)"
  by (simp add: sample_poisoned_daemon_def resolveRoot_poison_update resolveRoot_sample_repo)

text \<open>
  C7, as the specification states it: every well-formed call to debug-recrawl schedules
  a recrawl and returns \<open>recrawl = true\<close>, and every well-formed call to debug-ageout
  performs the ageout and returns \<open>ageout = true\<close>. On the sample daemon after
  debug-poison on \<^verbatim>\<open>/repo\<close>, the well-formed calls of debug-recrawl and debug-ageout
  on \<^verbatim>\<open>/repo\<close> are refused with \<open>RootPoisoned\<close>: no response is returned and the
  daemon, with the root's record of accepted triggers, is as it was.
\<close>

theorem recrawl_ageout_on_poisoned_root_counterexample:
  "fst (cmd_debug_poison [] 100 sample_daemon
       (JArray [JString ''debug-poison'', JString ''/repo''])) = sample_poisoned_daemon \<and>
   json_array_size (JArray [JString ''debug-recrawl'', JString ''/repo'']) = 2 \<and>
   resolveRoot sample_poisoned_daemon (JArray [JString ''debug-recrawl'', JString ''/repo'']) =
     Inr (1, sample_root) \<and>
   cmd_debug_recrawl [] sample_poisoned_daemon
       (JArray [JString ''debug-recrawl'', JString ''/repo'']) =
     (sample_poisoned_daemon, Inl RootPoisoned) \<and>
   json_array_size (JArray [JString ''debug-ageout'', JString ''/repo'', JInteger 3600]) = 3 \<and>
   json_array_get (JArray [JString ''debug-ageout'', JString ''/repo'', JInteger 3600]) 2 =
     Some (JInteger 3600) \<and>
   cmd_debug_ageout [] sample_poisoned_daemon
       (JArray [JString ''debug-ageout'', JString ''/repo'', JInteger 3600]) =
     (sample_poisoned_daemon, Inl RootPoisoned)"
proof -
  have set: "poison sample_poisoned_daemon \<noteq> None"
    by (simp add: sample_poisoned_daemon_def)
  have "fst (cmd_debug_poison [] 100 sample_daemon
       (JArray [JString ''debug-poison'', JString ''/repo''])) = sample_poisoned_daemon"
    by (simp add: cmd_debug_poison_def resolveRoot_sample_repo set_poison_state_def
        sample_poisoned_daemon_def sample_root_def Let_def)
  moreover have "cmd_debug_recrawl [] sample_poisoned_daemon
       (JArray [JString ''debug-recrawl'', JString ''/repo'']) =
     (sample_poisoned_daemon, Inl RootPoisoned)"
    by (simp add: cmd_debug_recrawl_def resolveRoot_sample_poisoned_repo scheduleRecrawl_def set)
  moreover have "cmd_debug_ageout [] sample_poisoned_daemon
       (JArray [JString ''debug-ageout'', JString ''/repo'', JInteger 3600]) =
     (sample_poisoned_daemon, Inl RootPoisoned)"
    by (simp add: cmd_debug_ageout_def resolveRoot_sample_poisoned_repo performAgeOut_def set)
  ultimately show ?thesis
    by (simp add: resolveRoot_sample_poisoned_repo)
qed

text \<open>
  C7, amended. While no poison record is set, a well-formed call forwards exactly its
  documented argument to the core. debug-recrawl with two arguments, on a root that
  resolves, makes one call on that root, \<open>scheduleRecrawl\<close> with the reason
  "debug-recrawl", and answers \<open>recrawl = true\<close>. debug-ageout with three arguments,
  the third an integer \<open>n\<close>, on a root that resolves, makes one call on that root,
  \<open>performAgeOut\<close> with \<open>n\<close> seconds, and answers \<open>ageout = true\<close>. No other root and
  nothing else of the daemon changes.
\<close>

theorem recrawl_ageout_forward_arguments:
  "(poison d = None \<and> json_array_size args = 2 \<and> resolveRoot d args = Inr (p, r) \<longrightarrow>
      (\<exists>d' resp. cmd_debug_recrawl mk d args = (d', Inr resp) \<and>
         map_of (roots d') p =
           Some (r\<lparr>core_calls := core_calls r @ [ScheduleRecrawl ''debug-recrawl'']\<rparr>) \<and>
         (\<forall>q. q \<noteq> p \<longrightarrow> map_of (roots d') q = map_of (roots d) q) \<and>
         poison d' = poison d \<and>
         json_object_get resp ''recrawl'' = Some (JBool True))) \<and>
   (poison d = None \<and> json_array_size args = 3 \<and> resolveRoot d args = Inr (p, r) \<and>
    json_array_get args 2 = Some (JInteger n) \<longrightarrow>
      (\<exists>d' resp. cmd_debug_ageout mk d args = (d', Inr resp) \<and>
         map_of (roots d') p = Some (r\<lparr>core_calls := core_calls r @ [PerformAgeOut n]\<rparr>) \<and>
         (\<forall>q. q \<noteq> p \<longrightarrow> map_of (roots d') q = map_of (roots d) q) \<and>
         poison d' = poison d \<and>
         json_object_get resp ''ageout'' = Some (JBool True)))"
  by (simp add: cmd_debug_recrawl_def cmd_debug_ageout_def store_root_same store_root_other
      store_root_poison scheduleRecrawl_def performAgeOut_def json_object_get_set
      json_true_def)

theorem recrawl_ageout_forward_arguments_witness:
  "poison sample_daemon = None \<and>
   json_array_size (JArray [JString ''debug-recrawl'', JString ''/repo'']) = 2 \<and>
   resolveRoot sample_daemon (JArray [JString ''debug-recrawl'', JString ''/repo'']) =
     Inr (1, sample_root) \<and>
   map_of (roots (fst (cmd_debug_recrawl [] sample_daemon
       (JArray [JString ''debug-recrawl'', JString ''/repo''])))) 1 =
     Some (sample_root\<lparr>core_calls := [ScheduleRecrawl ''debug-recrawl'']\<rparr>) \<and>
   snd (cmd_debug_recrawl [] sample_daemon
       (JArray [JString ''debug-recrawl'', JString ''/repo''])) =
     Inr [(''recrawl'', JBool True)] \<and>
   json_array_size (JArray [JString ''debug-ageout'', JString ''/repo'', JInteger 3600]) = 3 \<and>
   resolveRoot sample_daemon
       (JArray [JString ''debug-ageout'', JString ''/repo'', JInteger 3600]) =
     Inr (1, sample_root) \<and>
   json_array_get (JArray [JString ''debug-ageout'', JString ''/repo'', JInteger 3600]) 2 =
     Some (JInteger 3600) \<and>
   map_of (roots (fst (cmd_debug_ageout [] sample_daemon
       (JArray [JString ''debug-ageout'', JString ''/repo'', JInteger 3600])))) 1 =
     Some (sample_root\<lparr>core_calls := [PerformAgeOut 3600]\<rparr>) \<and>
   snd (cmd_debug_ageout [] sample_daemon
       (JArray [JString ''debug-ageout'', JString ''/repo'', JInteger 3600])) =
     Inr [(''ageout'', JBool True)]"
  using
    recrawl_ageout_forward_arguments
      [of sample_daemon "JArray [JString ''debug-recrawl'', JString ''/repo'']" 1 sample_root
          "[]" 0]
    recrawl_ageout_forward_arguments
      [of sample_daemon "JArray [JString ''debug-ageout'', JString ''/repo'', JInteger 3600]" 1
          sample_root "[]" 3600]
  by (simp add: resolveRoot_sample_repo sample_daemon_not_poisoned cmd_debug_recrawl_def
      cmd_debug_ageout_def scheduleRecrawl_def performAgeOut_def json_object_set_def
      json_true_def sample_root_def)

subsection \<open>debug-poison\<close>

text \<open>
  C6. A call to debug-poison on a root that resolves sets the process-wide poison
  record to the root's path, the time of the call, the reason "debug-poison" and the
  error code \<open>ENOMEM\<close> of the generic category, whatever the record was before (the
  last write wins); the "poison" field of the response is the poison reason in effect
  after the call. A call whose root does not resolve fails with the error of the
  resolution and leaves the daemon as it was. No call to debug-poison, on a root that
  resolves or not, clears a poison record that is set.
\<close>

theorem debug_poison_sets_sticky_record:
  "(resolveRoot d args = Inr (p, r) \<longrightarrow>
      fst (cmd_debug_poison mk now d args) =
        d\<lparr>poison := Some \<lparr>poison_path = root_path r, poison_timestamp = now,
                           poison_reason = ''debug-poison'',
                           poison_error = (ENOMEM, generic_category)\<rparr>\<rparr> \<and>
      (\<exists>resp. snd (cmd_debug_poison mk now d args) = Inr resp \<and>
         json_object_get resp ''poison'' =
           Some (JString (poisoned_reason (fst (cmd_debug_poison mk now d args)))) \<and>
         poisoned_reason (fst (cmd_debug_poison mk now d args)) = ''debug-poison'')) \<and>
   (resolveRoot d args = Inl e \<longrightarrow> cmd_debug_poison mk now d args = (d, Inl e)) \<and>
   (poison d \<noteq> None \<longrightarrow> poison (fst (cmd_debug_poison mk now d args)) \<noteq> None)"
  by (simp add: cmd_debug_poison_def set_poison_state_def poisoned_reason_def
      json_object_get_set c_str_def split: sum.split)

text \<open>
  On the sample daemon: \<^verbatim>\<open>/repo\<close> is poisoned at time 100, then \<^verbatim>\<open>/mnt/eden\<close> at
  time 200. The second record replaces the first, and a third call that names no known
  root leaves it in place.
\<close>

theorem debug_poison_sets_sticky_record_witness:
  "resolveRoot sample_daemon (JArray [JString ''debug-poison'', JString ''/repo'']) =
     Inr (1, sample_root) \<and>
   cmd_debug_poison [] 100 sample_daemon (JArray [JString ''debug-poison'', JString ''/repo'']) =
     (sample_daemon\<lparr>poison := Some \<lparr>poison_path = ''/repo'', poison_timestamp = 100,
          poison_reason = ''debug-poison'', poison_error = (ENOMEM, generic_category)\<rparr>\<rparr>,
      Inr [(''poison'', JString ''debug-poison'')]) \<and>
   poison (fst (cmd_debug_poison [] 200
       (fst (cmd_debug_poison [] 100 sample_daemon
          (JArray [JString ''debug-poison'', JString ''/repo''])))
       (JArray [JString ''debug-poison'', JString ''/mnt/eden'']))) =
     Some \<lparr>poison_path = ''/mnt/eden'', poison_timestamp = 200,
          poison_reason = ''debug-poison'', poison_error = (ENOMEM, generic_category)\<rparr> \<and>
   poison (fst (cmd_debug_poison [] 100 sample_daemon
       (JArray [JString ''debug-poison'', JString ''/repo'']))) \<noteq> None \<and>
   resolveRoot
       (fst (cmd_debug_poison [] 100 sample_daemon
          (JArray [JString ''debug-poison'', JString ''/repo''])))
       (JArray [JString ''debug-poison'', JString ''/nowhere'']) = Inl UnknownRoot \<and>
   poison (fst (cmd_debug_poison [] 300
       (fst (cmd_debug_poison [] 100 sample_daemon
          (JArray [JString ''debug-poison'', JString ''/repo''])))
       (JArray [JString ''debug-poison'', JString ''/nowhere'']))) \<noteq> None"
  using
    debug_poison_sets_sticky_record
      [of sample_daemon "JArray [JString ''debug-poison'', JString ''/repo'']" 1 sample_root
          "[]" 100 UnknownRoot]
    debug_poison_sets_sticky_record
      [of "fst (cmd_debug_poison [] 100 sample_daemon
             (JArray [JString ''debug-poison'', JString ''/repo'']))"
          "JArray [JString ''debug-poison'', JString ''/nowhere'']" 1 sample_root "[]" 300
          UnknownRoot]
  by (simp add: resolveRoot_sample_repo resolveRoot_sample_eden resolveRoot_sample_nowhere
      resolveRoot_poison_update c_str_def cmd_debug_poison_def set_poison_state_def poisoned_reason_def json_object_set_def
      sample_root_def sample_other_root_def)

subsection \<open>debug-contenthash and debug-symlink-target-cache\<close>

text \<open>
  C9. On a root whose view is not an in-memory view, debug-contenthash and
  debug-symlink-target-cache answer with an error response and no statistics, and leave
  the daemon as it was: with two arguments the error is "root is not an InMemoryView
  watcher". Either command returns a response only when the root resolves and the
  downcast of its view to the in-memory implementation succeeds.
\<close>

theorem cache_stats_require_InMemoryView:
  "(resolveRoot d args = Inr (p, r) \<and> dynamic_pointer_cast_InMemoryView (view r) = None \<longrightarrow>
      (\<exists>msg. debugContentHashCache mk d args = (d, Inl (ErrorResponse msg))) \<and>
      (\<exists>msg. debugSymlinkTargetCache mk d args = (d, Inl (ErrorResponse msg))) \<and>
      (json_array_size args = 2 \<longrightarrow>
         debugContentHashCache mk d args =
           (d, Inl (ErrorResponse ''root is not an InMemoryView watcher'')) \<and>
         debugSymlinkTargetCache mk d args =
           (d, Inl (ErrorResponse ''root is not an InMemoryView watcher'')))) \<and>
   (snd (debugContentHashCache mk d args) = Inr resp \<or>
    snd (debugSymlinkTargetCache mk d args) = Inr resp \<longrightarrow>
      (\<exists>p' r' caches. resolveRoot d args = Inr (p', r') \<and>
         dynamic_pointer_cast_InMemoryView (view r') = Some caches))"
  by (auto simp add: debugContentHashCache_def debugSymlinkTargetCache_def
      split: sum.splits option.splits if_splits)

text \<open>
  On the sample daemon: \<^verbatim>\<open>/mnt/eden\<close> has another view and is refused; \<^verbatim>\<open>/repo\<close> has
  an in-memory view and is answered.
\<close>

theorem cache_stats_require_InMemoryView_witness:
  "resolveRoot sample_daemon (JArray [JString ''debug-contenthash'', JString ''/mnt/eden'']) =
     Inr (2, sample_other_root) \<and>
   dynamic_pointer_cast_InMemoryView (view sample_other_root) = None \<and>
   json_array_size (JArray [JString ''debug-contenthash'', JString ''/mnt/eden'']) = 2 \<and>
   debugContentHashCache [] sample_daemon
       (JArray [JString ''debug-contenthash'', JString ''/mnt/eden'']) =
     (sample_daemon, Inl (ErrorResponse ''root is not an InMemoryView watcher'')) \<and>
   debugSymlinkTargetCache [] sample_daemon
       (JArray [JString ''debug-contenthash'', JString ''/mnt/eden'']) =
     (sample_daemon, Inl (ErrorResponse ''root is not an InMemoryView watcher'')) \<and>
   snd (debugContentHashCache [] sample_daemon
       (JArray [JString ''debug-contenthash'', JString ''/repo''])) =
     Inr (addCacheStats [] sample_hash_stats) \<and>
   (\<exists>caches. resolveRoot sample_daemon
        (JArray [JString ''debug-contenthash'', JString ''/repo'']) = Inr (1, sample_root) \<and>
      dynamic_pointer_cast_InMemoryView (view sample_root) = Some caches)"
  using
    cache_stats_require_InMemoryView
      [of sample_daemon "JArray [JString ''debug-contenthash'', JString ''/mnt/eden'']" 2
          sample_other_root "[]" "[]"]
    cache_stats_require_InMemoryView
      [of sample_daemon "JArray [JString ''debug-contenthash'', JString ''/repo'']" 1
          sample_root "[]" "addCacheStats [] sample_hash_stats"]
  by (simp add: resolveRoot_sample_repo resolveRoot_sample_eden debugContentHashCache_def
      sample_root_def sample_other_root_def)

text \<open>
  C3, as the specification states it: the record of the cache-stats query has exactly
  the fields hits, shares, misses, evictions, stores, loads, erases, clears and size.
  On the sample daemon, with an empty fresh response, debug-contenthash on \<^verbatim>\<open>/repo\<close>
  returns nine fields under other names, and none named "hits".
\<close>

theorem cache_stats_spec_field_names_counterexample:
  "snd (debugContentHashCache [] sample_daemon
       (JArray [JString ''debug-contenthash'', JString ''/repo''])) =
     Inr [(''cacheHit'', JInteger 5), (''cacheShare'', JInteger 1), (''cacheMiss'', JInteger 2),
          (''cacheEvict'', JInteger 0), (''cacheStore'', JInteger 2), (''cacheLoad'', JInteger 7),
          (''cacheErase'', JInteger 0), (''clearCount'', JInteger 0), (''size'', JInteger 2)] \<and>
   json_object_get
     [(''cacheHit'', JInteger 5), (''cacheShare'', JInteger 1), (''cacheMiss'', JInteger 2),
      (''cacheEvict'', JInteger 0), (''cacheStore'', JInteger 2), (''cacheLoad'', JInteger 7),
      (''cacheErase'', JInteger 0), (''clearCount'', JInteger 0), (''size'', JInteger 2)]
     ''hits'' = None"
  by (simp add: resolveRoot_sample_repo debugContentHashCache_def sample_root_def
      sample_hash_stats_def addCacheStats_def json_object_set_def json_integer_def
      json_object_get_def)

text \<open>
  C3, amended. On a root that resolves and has an in-memory view, with two arguments,
  debug-contenthash and debug-symlink-target-cache leave the daemon as it was and return
  the fresh response object with nine fields set on it: cacheHit, cacheShare, cacheMiss,
  cacheEvict, cacheStore, cacheLoad, cacheErase, clearCount and size, each the integer
  of the statistic of that name of the content-hash cache, respectively the
  symlink-target cache. Every other field of the response is a field of the fresh
  response object, with its value.
\<close>

theorem cache_stats_response_fields:
  "json_array_size args = 2 \<and> resolveRoot d args = Inr (p, r) \<and> view r = InMemoryView caches
   \<longrightarrow>
     debugContentHashCache mk d args =
       (d, Inr (addCacheStats mk (stats (contentHashCache caches)))) \<and>
     debugSymlinkTargetCache mk d args =
       (d, Inr (addCacheStats mk (stats (symlinkTargetCache caches)))) \<and>
     (\<forall>st k. json_object_get (addCacheStats mk st) k =
        (if k = ''cacheHit'' then Some (json_integer (cacheHit st))
         else if k = ''cacheShare'' then Some (json_integer (cacheShare st))
         else if k = ''cacheMiss'' then Some (json_integer (cacheMiss st))
         else if k = ''cacheEvict'' then Some (json_integer (cacheEvict st))
         else if k = ''cacheStore'' then Some (json_integer (cacheStore st))
         else if k = ''cacheLoad'' then Some (json_integer (cacheLoad st))
         else if k = ''cacheErase'' then Some (json_integer (cacheErase st))
         else if k = ''clearCount'' then Some (json_integer (clearCount st))
         else if k = ''size'' then Some (json_integer (size_stat st))
         else json_object_get mk k)) \<and>
     (\<forall>st. fst ` set (addCacheStats mk st) =
        fst ` set mk \<union>
        {''cacheHit'', ''cacheShare'', ''cacheMiss'', ''cacheEvict'', ''cacheStore'',
         ''cacheLoad'', ''cacheErase'', ''clearCount'', ''size''})"
proof (intro impI conjI allI)
  assume h: "json_array_size args = 2 \<and> resolveRoot d args = Inr (p, r) \<and>
    view r = InMemoryView caches"
  then show "debugContentHashCache mk d args =
      (d, Inr (addCacheStats mk (stats (contentHashCache caches))))"
    by (simp add: debugContentHashCache_def)
  from h show "debugSymlinkTargetCache mk d args =
      (d, Inr (addCacheStats mk (stats (symlinkTargetCache caches))))"
    by (simp add: debugSymlinkTargetCache_def)
next
  fix st k
  show "json_object_get (addCacheStats mk st) k =
        (if k = ''cacheHit'' then Some (json_integer (cacheHit st))
         else if k = ''cacheShare'' then Some (json_integer (cacheShare st))
         else if k = ''cacheMiss'' then Some (json_integer (cacheMiss st))
         else if k = ''cacheEvict'' then Some (json_integer (cacheEvict st))
         else if k = ''cacheStore'' then Some (json_integer (cacheStore st))
         else if k = ''cacheLoad'' then Some (json_integer (cacheLoad st))
         else if k = ''cacheErase'' then Some (json_integer (cacheErase st))
         else if k = ''clearCount'' then Some (json_integer (clearCount st))
         else if k = ''size'' then Some (json_integer (size_stat st))
         else json_object_get mk k)"
    by (simp add: addCacheStats_def json_object_get_def json_object_set_def update_conv')
next
  fix st
  show "fst ` set (addCacheStats mk st) =
        fst ` set mk \<union>
        {''cacheHit'', ''cacheShare'', ''cacheMiss'', ''cacheEvict'', ''cacheStore'',
         ''cacheLoad'', ''cacheErase'', ''clearCount'', ''size''}"
    unfolding addCacheStats_def keys_json_object_set_all by simp
qed

text \<open>
  On the sample daemon, with a fresh response that carries a version field: the
  symlink-target cache of \<^verbatim>\<open>/repo\<close> reports its own counters beside that field.
\<close>

theorem cache_stats_response_fields_witness:
  "json_array_size (JArray [JString ''debug-symlink-target-cache'', JString ''/repo'']) = 2 \<and>
   resolveRoot sample_daemon
       (JArray [JString ''debug-symlink-target-cache'', JString ''/repo'']) =
     Inr (1, sample_root) \<and>
   view sample_root =
     InMemoryView \<lparr>contentHashCache = \<lparr>stats = sample_hash_stats\<rparr>,
                    symlinkTargetCache = \<lparr>stats = sample_link_stats\<rparr>\<rparr> \<and>
   debugSymlinkTargetCache [(''version'', JString ''2023.01.30.00'')] sample_daemon
       (JArray [JString ''debug-symlink-target-cache'', JString ''/repo'']) =
     (sample_daemon,
      Inr [(''version'', JString ''2023.01.30.00''),
           (''cacheHit'', JInteger 11), (''cacheShare'', JInteger 0),
           (''cacheMiss'', JInteger 4), (''cacheEvict'', JInteger 1),
           (''cacheStore'', JInteger 4), (''cacheLoad'', JInteger 15),
           (''cacheErase'', JInteger 0), (''clearCount'', JInteger 1),
           (''size'', JInteger 3)]) \<and>
   json_object_get (addCacheStats [(''version'', JString ''2023.01.30.00'')] sample_link_stats)
       ''cacheLoad'' = Some (JInteger 15)"
  using
    cache_stats_response_fields
      [of "JArray [JString ''debug-symlink-target-cache'', JString ''/repo'']" sample_daemon 1
          sample_root
          "\<lparr>contentHashCache = \<lparr>stats = sample_hash_stats\<rparr>,
            symlinkTargetCache = \<lparr>stats = sample_link_stats\<rparr>\<rparr>"
          "[(''version'', JString ''2023.01.30.00'')]"]
  by (simp add: resolveRoot_sample_repo sample_root_def sample_link_stats_def
      addCacheStats_def json_object_set_def json_integer_def json_object_get_def)

subsection \<open>debug-show-cursors\<close>

lemma c_str_nul_free: "CHR 0x00 \<notin> set s \<Longrightarrow> c_str s = s"
  unfolding c_str_def by (rule takeWhile_eq_all_conv [THEN iffD2]) auto

lemma show_cursors_loop_nul_free:
  "distinct (map fst cs) \<Longrightarrow> \<forall>name \<in> fst ` set cs. CHR 0x00 \<notin> set name \<Longrightarrow>
   fst ` set cs \<inter> fst ` set acc = {} \<Longrightarrow>
   show_cursors_loop cs acc = acc @ map (\<lambda>(name, ticks). (name, json_integer ticks)) cs"
proof (induction cs arbitrary: acc)
  case Nil
  then show ?case by simp
next
  case (Cons c cs)
  obtain name ticks where c: "c = (name, ticks)" by (cases c)
  from Cons.prems c have key: "c_str name = name" by (simp add: c_str_nul_free)
  from Cons.prems c have fresh: "name \<notin> fst ` set acc" by auto
  from Cons.prems c have d: "distinct (map fst cs)" and n: "name \<notin> fst ` set cs" by auto
  from Cons.prems have nul: "\<forall>name \<in> fst ` set cs. CHR 0x00 \<notin> set name" by simp
  from Cons.prems c n have disj: "fst ` set cs \<inter> fst ` set (acc @ [(name, json_integer ticks)]) = {}"
    by auto
  show ?case
    using Cons.IH [OF d nul disj]
    by (simp add: c key json_object_set_def update_fresh [OF fresh])
qed

text \<open>
  Where no cursor name of the root holds a NUL byte (and the cursor map holds each name
  once), debug-show-cursors with two arguments returns the "cursors" object with one
  entry per cursor, the cursor's name mapped to the integer of its tick, and hands back
  the daemon as it was.
\<close>

lemma show_cursors_snapshot_nul_free:
  "json_array_size args = 2 \<Longrightarrow> resolveRoot d args = Inr (p, r) \<Longrightarrow>
   distinct (map fst (cursors r)) \<Longrightarrow> \<forall>name \<in> fst ` set (cursors r). CHR 0x00 \<notin> set name \<Longrightarrow>
   \<exists>resp. cmd_debug_show_cursors mk d args = (d, Inr resp) \<and>
     json_object_get resp ''cursors'' =
       Some (JObject (map (\<lambda>(name, ticks). (name, JInteger ticks)) (cursors r)))"
  by (simp add: cmd_debug_show_cursors_def show_cursors_loop_nul_free json_object_get_set
      json_integer_def)

text \<open>
  C4. The claim: debug-show-cursors returns one entry per cursor registered on the
  root, the cursor's name mapped to its tick. The handler sets each entry under
  \<^verbatim>\<open>name.c_str()\<close>, so a name is cut at its first NUL byte. On the root \<^verbatim>\<open>/nul\<close>, whose
  two cursors are named \<^verbatim>\<open>n:a<NUL>x\<close> (tick 3) and \<^verbatim>\<open>n:a<NUL>y\<close> (tick 7), the
  returned object has the single entry \<^verbatim>\<open>n:a\<close> with tick 7: neither cursor appears
  under its name and the tick of the first is lost. The daemon is handed back as it was.
\<close>

theorem show_cursors_cuts_names_at_nul:
  "json_array_size (JArray [JString ''debug-show-cursors'', JString ''/nul'']) = 2 \<and>
   resolveRoot sample_nul_daemon (JArray [JString ''debug-show-cursors'', JString ''/nul'']) =
     Inr (3, sample_nul_root) \<and>
   cursors sample_nul_root =
     [(''n:a'' @ [CHR 0x00] @ ''x'', 3), (''n:a'' @ [CHR 0x00] @ ''y'', 7)] \<and>
   distinct (map fst (cursors sample_nul_root)) \<and>
   cmd_debug_show_cursors [] sample_nul_daemon
       (JArray [JString ''debug-show-cursors'', JString ''/nul'']) =
     (sample_nul_daemon, Inr [(''cursors'', JObject [(''n:a'', JInteger 7)])])"
  by (simp add: resolveRoot_def sample_nul_daemon_def sample_nul_root_def
      cmd_debug_show_cursors_def c_str_def json_object_set_def json_integer_def)

subsection \<open>debug-get-subscriptions: getDebugSubscriptionInfo\<close>

lemma last_responses_loop_eq:
  "last_responses_loop ts rs acc =
     acc @ map (\<lambda>(written, response).
                  JObject [(''written_time'', JString (ts written)), (''response'', response)]) rs"
  by (induction rs arbitrary: acc) auto

lemma client_subscriptions_loop_eq:
  "client_subscriptions_loop ts r cid subs acc =
     acc @ map (\<lambda>(name, sub).
                  JObject [(''name'', JString name), (''client_id'', JInteger cid),
                           (''last_responses'',
                              JArray (map (\<lambda>(written, response).
                                  JObject [(''written_time'', JString (ts written)),
                                           (''response'', response)]) (lastResponses sub)))])
               (filter (\<lambda>(name, sub). root sub = r) subs)"
  by (induction subs arbitrary: acc) (auto simp: last_responses_loop_eq json_integer_def)

lemma all_clients_loop_eq:
  "all_clients_loop ts r clients acc =
     acc @ concat (map (\<lambda>c. client_subscriptions_loop ts r (unique_id c) (subscriptions c) []) clients)"
proof (induction clients arbitrary: acc)
  case Nil
  then show ?case by simp
next
  case (Cons c clients)
  have "client_subscriptions_loop ts r (unique_id c) (subscriptions c) acc =
        acc @ client_subscriptions_loop ts r (unique_id c) (subscriptions c) []"
    by (simp add: client_subscriptions_loop_eq)
  then show ?case by (simp add: Cons.IH)
qed

text \<open>
  C5. For a root, \<open>getDebugSubscriptionInfo\<close> returns an array with one record per
  subscription whose owning root is that root, and none for a subscription of another
  root, over all connected clients in turn. The record of a subscription carries its
  name as a string, the identifier of the client that owns it as an integer, and the
  ring of its recent responses, each as the pair of the time it was written (formatted)
  and the response.
\<close>

theorem getDebugSubscriptionInfo_records:
  "getDebugSubscriptionInfo ts clients r =
     JArray (concat (map (\<lambda>c.
       map (\<lambda>(name, sub).
              JObject [(''name'', JString name), (''client_id'', JInteger (unique_id c)),
                       (''last_responses'',
                          JArray (map (\<lambda>(written, response).
                              JObject [(''written_time'', JString (ts written)),
                                       (''response'', response)]) (lastResponses sub)))])
           (filter (\<lambda>(name, sub). root sub = r) (subscriptions c))) clients))"
  by (simp add: getDebugSubscriptionInfo_def all_clients_loop_eq client_subscriptions_loop_eq)

text \<open>
  On the two sample clients, for the root at address 1: the subscription \<open>sub-a\<close> of
  client 42 and the subscription \<open>sub-c\<close> of client 43 are reported, each with its
  client's identifier; \<open>sub-b\<close> of client 42, on the root at address 2, is not.
\<close>

theorem getDebugSubscriptionInfo_records_witness:
  "getDebugSubscriptionInfo sample_timeString [sample_client, sample_second_client] 1 =
     JArray
       [JObject [(''name'', JString ''sub-a''), (''client_id'', JInteger 42),
                 (''last_responses'',
                    JArray [JObject [(''written_time'', JString ''00:16:40''),
                                     (''response'', JObject [(''clock'', JString ''c:1'')])]])],
        JObject [(''name'', JString ''sub-c''), (''client_id'', JInteger 43),
                 (''last_responses'', JArray [])]] \<and>
   getDebugSubscriptionInfo sample_timeString [sample_client, sample_second_client] 2 =
     JArray
       [JObject [(''name'', JString ''sub-b''), (''client_id'', JInteger 42),
                 (''last_responses'', JArray [])]]"
  using
    getDebugSubscriptionInfo_records [of sample_timeString "[sample_client, sample_second_client]" 1]
    getDebugSubscriptionInfo_records [of sample_timeString "[sample_client, sample_second_client]" 2]
  by (simp add: sample_client_def sample_second_client_def sample_timeString_def)

subsection \<open>debug-set-subscriptions-paused\<close>

lemma check_paused_map_None:
  "check_paused_map subs pm = None \<longleftrightarrow>
     (\<forall>(name, v) \<in> set pm. map_of subs name \<noteq> None \<and> isBool v)"
proof (induction pm)
  case Nil
  then show ?case by simp
next
  case (Cons e pm)
  obtain n0 v0 where e: "e = (n0, v0)" by (cases e)
  show ?case
  proof (cases "map_of subs n0")
    case None
    then show ?thesis by (simp add: e)
  next
    case (Some sub)
    then show ?thesis using Cons.IH by (cases "isBool v0") (simp_all add: e)
  qed
qed

lemma check_paused_map_Some:
  "check_paused_map subs pm = Some msg \<Longrightarrow>
     \<exists>name v. (name, v) \<in> set pm \<and>
       (map_of subs name = None \<and>
          msg = ''this client does not have a subscription named '' @ quoted name
        \<or> \<not> isBool v \<and>
          msg = ''new value for subscription '' @ quoted name @ '' not a boolean'')"
proof (induction pm)
  case Nil
  then show ?case by simp
next
  case (Cons e pm)
  obtain n0 v0 where e: "e = (n0, v0)" by (cases e)
  show ?case
  proof (cases "map_of subs n0")
    case None
    with Cons.prems e
    have "msg = ''this client does not have a subscription named '' @ quoted n0" by simp
    with None e show ?thesis by fastforce
  next
    case (Some sub)
    show ?thesis
    proof (cases "isBool v0")
      case False
      with Cons.prems e Some
      have "msg = ''new value for subscription '' @ quoted n0 @ '' not a boolean''" by simp
      with False e show ?thesis by fastforce
    next
      case True
      with Cons.prems e Some have "check_paused_map subs pm = Some msg" by simp
      from Cons.IH [OF this] obtain name v where
        "(name, v) \<in> set pm" and
        "map_of subs name = None \<and>
          msg = ''this client does not have a subscription named '' @ quoted name
        \<or> \<not> isBool v \<and>
          msg = ''new value for subscription '' @ quoted name @ '' not a boolean''"
        by blast
      then show ?thesis by (intro exI [of _ name] exI [of _ v]) simp
    qed
  qed
qed

lemma isBool_asBool: "isBool v \<Longrightarrow> \<exists>b. v = JBool b"
  by (cases v) auto

lemma set_paused_loop_effect:
  "distinct (map fst pm) \<Longrightarrow>
   \<forall>(name, v) \<in> set pm. map_of subs name \<noteq> None \<and> isBool v \<Longrightarrow>
   \<exists>subs' states'. set_paused_loop subs states pm = (subs', Inr states') \<and>
     (\<forall>name v. (name, v) \<in> set pm \<longrightarrow>
        (\<exists>sub b. map_of subs name = Some sub \<and> v = JBool b \<and>
           map_of subs' name = Some (sub\<lparr>debug_paused := b\<rparr>) \<and>
           map_of states' name =
             Some (JObject [(''old'', JBool (debug_paused sub)), (''new'', JBool b)]))) \<and>
     (\<forall>name. name \<notin> fst ` set pm \<longrightarrow>
        map_of subs' name = map_of subs name \<and> map_of states' name = map_of states name)"
proof (induction pm arbitrary: subs states)
  case Nil
  then show ?case by simp
next
  case (Cons e pm)
  obtain n0 v0 where e: "e = (n0, v0)" by (cases e)
  from Cons.prems e obtain s0 b0 where s0: "map_of subs n0 = Some s0" and v0: "v0 = JBool b0"
    by (auto dest: isBool_asBool)
  define subs1 where "subs1 = AList.update n0 (s0\<lparr>debug_paused := b0\<rparr>) subs"
  define states1 where "states1 = json_object_set n0
      (JObject [(''old'', json_boolean (debug_paused s0)), (''new'', v0)]) states"
  have step: "set_paused_loop subs states (e # pm) = set_paused_loop subs1 states1 pm"
    by (simp add: e s0 v0 subs1_def states1_def)
  from Cons.prems e have d: "distinct (map fst pm)" and fresh: "n0 \<notin> fst ` set pm" by auto
  have subs1_other: "map_of subs1 n = map_of subs n" if "n \<noteq> n0" for n
    using that by (simp add: subs1_def update_conv')
  have states1_other: "map_of states1 n = map_of states n" if "n \<noteq> n0" for n
    using that by (simp add: states1_def json_object_set_def update_conv')
  have ok1: "\<forall>(name, v) \<in> set pm. map_of subs1 name \<noteq> None \<and> isBool v"
  proof -
    have "map_of subs1 name \<noteq> None \<and> isBool v" if m: "(name, v) \<in> set pm" for name v
    proof -
      from m fresh have "name \<noteq> n0" by force
      with Cons.prems(2) m show ?thesis by (auto simp: subs1_other)
    qed
    then show ?thesis by auto
  qed
  from Cons.IH [OF d ok1, of states1] obtain subs' states' where
    run: "set_paused_loop subs1 states1 pm = (subs', Inr states')" and
    named: "\<And>name v. (name, v) \<in> set pm \<Longrightarrow>
        (\<exists>sub b. map_of subs1 name = Some sub \<and> v = JBool b \<and>
           map_of subs' name = Some (sub\<lparr>debug_paused := b\<rparr>) \<and>
           map_of states' name =
             Some (JObject [(''old'', JBool (debug_paused sub)), (''new'', JBool b)]))" and
    others: "\<And>name. name \<notin> fst ` set pm \<Longrightarrow>
        map_of subs' name = map_of subs1 name \<and> map_of states' name = map_of states1 name"
    by blast
  have head: "map_of subs' n0 = Some (s0\<lparr>debug_paused := b0\<rparr>) \<and>
      map_of states' n0 = Some (JObject [(''old'', JBool (debug_paused s0)), (''new'', JBool b0)])"
    using others [OF fresh]
    by (simp add: subs1_def states1_def json_object_set_def json_boolean_def update_conv' v0)
  have tail: "\<exists>sub b. map_of subs name = Some sub \<and> v = JBool b \<and>
           map_of subs' name = Some (sub\<lparr>debug_paused := b\<rparr>) \<and>
           map_of states' name =
             Some (JObject [(''old'', JBool (debug_paused sub)), (''new'', JBool b)])"
    if m: "(name, v) \<in> set pm" for name v
  proof -
    from m fresh have "name \<noteq> n0" by force
    with named [OF m] show ?thesis by (simp add: subs1_other)
  qed
  have rest: "map_of subs' name = map_of subs name \<and> map_of states' name = map_of states name"
    if "name \<notin> fst ` set (e # pm)" for name
  proof -
    from that e have "name \<noteq> n0" and "name \<notin> fst ` set pm" by auto
    then show ?thesis using others [of name] by (simp add: subs1_other states1_other)
  qed
  have A: "\<exists>sub b. map_of subs name = Some sub \<and> v = JBool b \<and>
           map_of subs' name = Some (sub\<lparr>debug_paused := b\<rparr>) \<and>
           map_of states' name =
             Some (JObject [(''old'', JBool (debug_paused sub)), (''new'', JBool b)])"
    if m: "(name, v) \<in> set (e # pm)" for name v
  proof -
    from m consider "name = n0" "v = v0" | "(name, v) \<in> set pm" by (auto simp: e)
    then show ?thesis
    proof cases
      case 1
      then show ?thesis using head s0 v0 by simp
    next
      case 2
      then show ?thesis by (rule tail)
    qed
  qed
  have run': "set_paused_loop subs states (e # pm) = (subs', Inr states')"
    by (simp only: step run)
  from run' A rest show ?case by blast
qed

text \<open>
  C1. Take a call whose second argument is an object, the paused map (an
  \<^verbatim>\<open>unordered_map\<close>, so it holds each name once), in which every name is a subscription
  of the calling client and every value is a boolean. The call succeeds; each named
  subscription has its paused flag set to the value supplied for it and is otherwise as
  it was; subscriptions that are not named are as they were; and the "paused" field of
  the response has, for each name and for no other, the entry \<open>{old, new}\<close> with the
  flag as it was before the call and the value supplied.
\<close>

theorem set_subscriptions_paused_sets_and_reports:
  assumes args: "json_array_get args 1 = Some (JObject paused_map)"
    and dist: "distinct (map fst paused_map)"
    and ok: "\<forall>(name, v) \<in> set paused_map. map_of (subscriptions client) name \<noteq> None \<and> isBool v"
  shows "\<exists>client' resp states.
     cmd_debug_set_subscriptions_paused mk client args = (client', Inr resp) \<and>
     json_object_get resp ''paused'' = Some (JObject states) \<and>
     (\<forall>name v. (name, v) \<in> set paused_map \<longrightarrow>
        (\<exists>sub b. map_of (subscriptions client) name = Some sub \<and> v = JBool b \<and>
           map_of (subscriptions client') name = Some (sub\<lparr>debug_paused := b\<rparr>) \<and>
           json_object_get states name =
             Some (JObject [(''old'', JBool (debug_paused sub)), (''new'', JBool b)]))) \<and>
     (\<forall>name. name \<notin> fst ` set paused_map \<longrightarrow>
        map_of (subscriptions client') name = map_of (subscriptions client) name \<and>
        json_object_get states name = None) \<and>
     unique_id client' = unique_id client \<and> client_is_owner client' = client_is_owner client"
proof -
  from set_paused_loop_effect [OF dist ok, of "[]"] obtain subs' states' where
    run: "set_paused_loop (subscriptions client) [] paused_map = (subs', Inr states')" and
    named: "\<forall>name v. (name, v) \<in> set paused_map \<longrightarrow>
        (\<exists>sub b. map_of (subscriptions client) name = Some sub \<and> v = JBool b \<and>
           map_of subs' name = Some (sub\<lparr>debug_paused := b\<rparr>) \<and>
           map_of states' name =
             Some (JObject [(''old'', JBool (debug_paused sub)), (''new'', JBool b)]))" and
    others: "\<forall>name. name \<notin> fst ` set paused_map \<longrightarrow>
        map_of subs' name = map_of (subscriptions client) name \<and>
        map_of states' name = map_of [] name"
    by blast
  from ok have chk: "check_paused_map (subscriptions client) paused_map = None"
    by (simp add: check_paused_map_None)
  have res: "cmd_debug_set_subscriptions_paused mk client args =
      (client\<lparr>subscriptions := subs'\<rparr>, Inr (json_object_set ''paused'' (JObject states') mk))"
    using args by (simp add: cmd_debug_set_subscriptions_paused_def chk run)
  have get: "json_object_get (json_object_set ''paused'' (JObject states') mk) ''paused'' =
      Some (JObject states')"
    by (simp add: json_object_get_def json_object_set_def update_conv')
  show ?thesis
    using res get named others by (auto simp: json_object_get_def)
qed

theorem set_subscriptions_paused_sets_and_reports_witness:
  "json_array_get
       (JArray [JString ''debug-set-subscriptions-paused'',
                JObject [(''sub-a'', JBool True), (''sub-b'', JBool False)]]) 1 =
     Some (JObject [(''sub-a'', JBool True), (''sub-b'', JBool False)]) \<and>
   distinct (map fst [(''sub-a'', JBool True), (''sub-b'', JBool False)]) \<and>
   map_of (subscriptions sample_client) ''sub-a'' \<noteq> None \<and> isBool (JBool True) \<and>
   map_of (subscriptions sample_client) ''sub-b'' \<noteq> None \<and> isBool (JBool False) \<and>
   cmd_debug_set_subscriptions_paused [] sample_client
       (JArray [JString ''debug-set-subscriptions-paused'',
                JObject [(''sub-a'', JBool True), (''sub-b'', JBool False)]]) =
     (sample_client\<lparr>subscriptions :=
        [(''sub-a'', \<lparr>root = 1, debug_paused = True,
                       lastResponses = [(1000, JObject [(''clock'', JString ''c:1'')])]\<rparr>),
         (''sub-b'', \<lparr>root = 2, debug_paused = False, lastResponses = []\<rparr>)]\<rparr>,
      Inr [(''paused'',
            JObject [(''sub-a'', JObject [(''old'', JBool False), (''new'', JBool True)]),
                     (''sub-b'', JObject [(''old'', JBool True), (''new'', JBool False)])])])"
  using
    set_subscriptions_paused_sets_and_reports
      [of "JArray [JString ''debug-set-subscriptions-paused'',
                   JObject [(''sub-a'', JBool True), (''sub-b'', JBool False)]]"
          "[(''sub-a'', JBool True), (''sub-b'', JBool False)]" sample_client "[]"]
  by (simp add: cmd_debug_set_subscriptions_paused_def sample_client_def json_object_set_def
      json_boolean_def)

text \<open>
  C2. Take a call whose second argument is an object, the paused map, in which some
  name is not a subscription of the calling client or some value is not a boolean. The
  call answers with an error response, which names an entry of the map that is at
  fault and says which fault, and the client is as it was: no paused flag is written,
  also not for the names of the request that are valid.
\<close>

theorem set_subscriptions_paused_rejects_unchanged:
  assumes args: "json_array_get args 1 = Some (JObject paused_map)"
    and bad: "\<exists>(name, v) \<in> set paused_map. map_of (subscriptions client) name = None \<or> \<not> isBool v"
  shows "\<exists>msg name v. cmd_debug_set_subscriptions_paused mk client args =
      (client, Inl (ErrorResponse msg)) \<and> (name, v) \<in> set paused_map \<and>
       (map_of (subscriptions client) name = None \<and>
          msg = ''this client does not have a subscription named '' @ quoted name
        \<or> \<not> isBool v \<and>
          msg = ''new value for subscription '' @ quoted name @ '' not a boolean'')"
proof -
  from bad have "check_paused_map (subscriptions client) paused_map \<noteq> None"
    unfolding check_paused_map_None by fastforce
  then obtain msg where chk: "check_paused_map (subscriptions client) paused_map = Some msg"
    by auto
  have "cmd_debug_set_subscriptions_paused mk client args = (client, Inl (ErrorResponse msg))"
    using args by (simp add: cmd_debug_set_subscriptions_paused_def chk)
  with check_paused_map_Some [OF chk] show ?thesis by blast
qed

text \<open>
  On the sample client: a request that names \<open>sub-a\<close>, which exists, before \<open>sub-x\<close>,
  which does not; and a request with an integer for \<open>sub-b\<close>.
\<close>

theorem set_subscriptions_paused_rejects_unchanged_witness:
  "json_array_get
       (JArray [JString ''debug-set-subscriptions-paused'',
                JObject [(''sub-a'', JBool True), (''sub-x'', JBool False)]]) 1 =
     Some (JObject [(''sub-a'', JBool True), (''sub-x'', JBool False)]) \<and>
   map_of (subscriptions sample_client) ''sub-x'' = None \<and>
   cmd_debug_set_subscriptions_paused [] sample_client
       (JArray [JString ''debug-set-subscriptions-paused'',
                JObject [(''sub-a'', JBool True), (''sub-x'', JBool False)]]) =
     (sample_client,
      Inl (ErrorResponse
             (''this client does not have a subscription named '' @ quoted ''sub-x''))) \<and>
   \<not> isBool (JInteger 1) \<and>
   cmd_debug_set_subscriptions_paused [] sample_client
       (JArray [JString ''debug-set-subscriptions-paused'',
                JObject [(''sub-a'', JBool True), (''sub-b'', JInteger 1)]]) =
     (sample_client,
      Inl (ErrorResponse (''new value for subscription '' @ quoted ''sub-b'' @ '' not a boolean'')))"
  using
    set_subscriptions_paused_rejects_unchanged
      [of "JArray [JString ''debug-set-subscriptions-paused'',
                   JObject [(''sub-a'', JBool True), (''sub-x'', JBool False)]]"
          "[(''sub-a'', JBool True), (''sub-x'', JBool False)]" sample_client "[]"]
    set_subscriptions_paused_rejects_unchanged
      [of "JArray [JString ''debug-set-subscriptions-paused'',
                   JObject [(''sub-a'', JBool True), (''sub-b'', JInteger 1)]]"
          "[(''sub-a'', JBool True), (''sub-b'', JInteger 1)]" sample_client "[]"]
  by (simp add: cmd_debug_set_subscriptions_paused_def sample_client_def)

end
